theory Spec2Isabelle
  imports Complex_Main "HOL-Library.Word"
begin

section \<open>The QA task for Phi candidates: femtoUniverseDebugPhi\<close>

text \<open>
  A shallow embedding of \<^verbatim>\<open>PWGCF/FemtoUniverse/Tasks/femtoUniverseDebugPhi.cxx\<close>.
  The task is a struct holding configurables, a slice cache, four histogram delegates
  and two histogram registries; \<^verbatim>\<open>init\<close> books the histograms and
  \<^verbatim>\<open>process\<close> is called once per collision. Both mutate the struct, so both
  are state transformers on a record of the struct's members.

  The columnar tables, the partition, the slice cache, the logger and the histogram
  helper classes are not part of the file. They are modelled by what the task does with
  them: a table is the list of its rows, a row iterator is a row together with its
  position, a registry keeps the list of bookings and the list of fill calls it has
  received, in order.

  The task reads rows and list entries without checking that they exist, and has no
  exit for a read out of range: it goes on with whatever the read yields. What that is
  is a parameter of the model; a call returns, with the state, the list of the reads
  out of range it made.
\<close>

subsection \<open>Tables and rows\<close>

text \<open>
  Modelled from the spec: the enumeration \<^verbatim>\<open>aod::femtouniverseparticle::ParticleType\<close>
  is declared in FemtoDerived.h. The task compares the type tag of a row against the two
  enumerators \<^verbatim>\<open>kPhi\<close> and \<^verbatim>\<open>kPhiChild\<close> only (both sides cast to
  \<^verbatim>\<open>uint8_t\<close>, which is injective on the enumerators), so every other tag is
  \<open>kOtherType\<close>.
\<close>

datatype ParticleType = kPhi | kPhiChild | kOtherType

text \<open>
  Modelled from the spec: a row of \<^verbatim>\<open>o2::aod::FDCollision\<close>. The task reads
  its global index; the event-level quantities are read by the event histogram delegate
  only and are left out.
\<close>

record FDCollision =
  globalIndex_col :: int

text \<open>
  Modelled from the spec: the columns of one row of the joined table
  \<^verbatim>\<open>soa::Join<aod::FDParticles, aod::FDExtParticles>\<close> that the task reads or that
  its disabled checks name: the global index, the owning collision, the type tag, the cut
  bitmask (compared with \<^verbatim>\<open>uint32_t\<close> masks in the disabled checks), the
  child-presence flag \<^verbatim>\<open>has_children()\<close> and the recorded list of child indices
  \<^verbatim>\<open>childrenIds()\<close>. Momentum and PID columns are read by the histogram
  delegates only and are left out.
\<close>

record FDParticle =
  globalIndex :: int
  fdCollisionId :: int
  partType :: ParticleType
  cut_col :: "32 word"
  has_children :: bool
  childrenIds :: "int list"

type_synonym FemtoFullParticles = "FDParticle list"

text \<open>
  Modelled from the spec: a row iterator of the framework, as the task uses it.
  \<^verbatim>\<open>index()\<close> is the position of the row in the table, \<open>cols\<close> gives its
  columns.
\<close>

record part_iterator =
  index :: int
  cols :: FDParticle

text \<open>What can go wrong in \<^verbatim>\<open>process\<close>: both are reads out of range, which
  the C++ does not check. Neither ends the call: the source has no exit for them.\<close>

datatype fault = IteratorOutOfRange | ChildIdOutOfRange

text \<open>
  Modelled from the spec: \<^verbatim>\<open>parts.iteratorAt(i)\<close> of the framework, the row at
  table position \<open>i\<close>. The source computes \<open>i\<close> as a signed 64-bit difference of a
  position and 1 or 2, so it cannot overflow but it can be negative; there is no row
  then, nor at or beyond the size of the table.
\<close>

definition iteratorAt :: "FemtoFullParticles \<Rightarrow> int \<Rightarrow> part_iterator option" where
  "iteratorAt parts i =
     (if 0 \<le> i \<and> i < int (length parts)
      then Some \<lparr>index = i, cols = parts ! nat i\<rparr>
      else None)"

text \<open>
  Modelled from the spec: \<^verbatim>\<open>part.childrenIds()[k]\<close>, entry \<open>k\<close> of the recorded
  child-index list, with the read out of range made explicit.
\<close>

definition childrenIds_at :: "part_iterator \<Rightarrow> nat \<Rightarrow> int option" where
  "childrenIds_at part k =
     (if k < length (childrenIds (cols part))
      then Some (childrenIds (cols part) ! k)
      else None)"

text \<open>
  What the two reads yield out of range is decided by the framework and by what lies
  beside the table in memory, not by the task, and nothing under the task's sources or
  in the spec fixes it: it is a parameter of the model. \<open>row_beyond u i\<close> are the
  columns the task reads from an iterator at a position \<open>i\<close> without a row,
  \<open>childId_beyond u part k\<close> is what it reads as entry \<open>k\<close> of a child-index list that
  has no such entry. Every property below holds for every \<open>u\<close>.
\<close>

record out_of_range =
  row_beyond :: "int \<Rightarrow> FDParticle"
  childId_beyond :: "part_iterator \<Rightarrow> nat \<Rightarrow> int"

text \<open>
  The two reads as the task makes them, unchecked: the value read, with the list of the
  faults of the read (empty when the read is in range). The task goes on with the value
  in both cases.
\<close>

definition iteratorAt_unchecked ::
  "out_of_range \<Rightarrow> FemtoFullParticles \<Rightarrow> int \<Rightarrow> fault list \<times> part_iterator" where
  "iteratorAt_unchecked u parts i =
     (case iteratorAt parts i of
        Some it \<Rightarrow> ([], it)
      | None \<Rightarrow> ([IteratorOutOfRange], \<lparr>index = i, cols = row_beyond u i\<rparr>))"

definition childrenIds_unchecked ::
  "out_of_range \<Rightarrow> part_iterator \<Rightarrow> nat \<Rightarrow> fault list \<times> int" where
  "childrenIds_unchecked u part k =
     (case childrenIds_at part k of
        Some v \<Rightarrow> ([], v)
      | None \<Rightarrow> ([ChildIdOutOfRange], childId_beyond u part k))"

text \<open>
  Modelled from the spec: the iterators of a table from \<^verbatim>\<open>begin()\<close> to
  \<^verbatim>\<open>end()\<close>, the rows in order, each with its position (counted from \<open>i\<close>).
\<close>

fun rows_from :: "int \<Rightarrow> FDParticle list \<Rightarrow> part_iterator list" where
  "rows_from i [] = []"
| "rows_from i (r # rs) = \<lparr>index = i, cols = r\<rparr> # rows_from (i + 1) rs"

text \<open>
  The partition of line 66:
  \<^verbatim>\<open>Partition<FemtoFullParticles> partsOne = (partType == uint8_t(ParticleType::kPhi))\<close>.
  The second conjunct of the filter, on the cut bitmask, is commented out in the source.
  The framework binds the partition to the table that \<^verbatim>\<open>process\<close> receives, so it
  is a function of that table: its Phi-tagged rows, in table order.
\<close>

definition partsOne :: "FemtoFullParticles \<Rightarrow> part_iterator list" where
  "partsOne parts = filter (\<lambda>p. partType (cols p) = kPhi) (rows_from 0 parts)"

text \<open>
  Modelled from the spec: the slice cache and \<^verbatim>\<open>sliceByCached\<close> belong to the
  framework. By the spec (4.3, step 1) the call returns the rows of the partition that
  belong to the collision with the given global index, and the cache only saves the
  recomputation: the result does not depend on what the cache holds. The cache is the
  list of the slices computed so far, by key.
\<close>

type_synonym SliceCache = "(int \<times> part_iterator list) list"

definition sliceByCached :: "part_iterator list \<Rightarrow> int \<Rightarrow> SliceCache \<Rightarrow> part_iterator list" where
  "sliceByCached sel v c = filter (\<lambda>p. fdCollisionId (cols p) = v) sel"

subsection \<open>Configurables\<close>

text \<open>
  The two configurable groups of lines 43 to 63. \<^verbatim>\<open>int\<close> values are not computed
  with and are integers; \<^verbatim>\<open>uint32_t\<close> masks are 32-bit words; a
  \<^verbatim>\<open>ConfigurableAxis\<close> is the vector of its numbers (the bin count, then the
  bounds). The task only passes floating-point values on, so they are reals here.
\<close>

type_synonym ConfigurableAxis = "real list"

record ConfPhigroup_t =
  ConfPDGCodePhi :: int
  ConfCutPhi :: "32 word"
  ConfPhiTempFitVarBins :: ConfigurableAxis
  ConfPhiTempFitVarpTBins :: ConfigurableAxis

record ConfChildGroup_t =
  ConfPDGCodeChildPos :: int
  ConfPDGCodeChildNeg :: int
  ConfCutChildPos :: "32 word"
  ConfCutChildNeg :: "32 word"
  ConfChildPosPidnSigmaMax :: real
  ConfChildNegPidnSigmaMax :: real
  ConfChildPosIndex :: int
  ConfChildNegIndex :: int
  ConfChildPIDnSigmaMax :: "real list"
  ConfChildnSpecies :: int
  ConfChildTempFitVarBins :: ConfigurableAxis
  ConfChildTempFitVarpTBins :: ConfigurableAxis

text \<open>The default values of the source.\<close>

definition ConfPhigroup_default :: ConfPhigroup_t where
  "ConfPhigroup_default =
     \<lparr>ConfPDGCodePhi = 3122, ConfCutPhi = 338,
      ConfPhiTempFitVarBins = [300, 0.95, 1],
      ConfPhiTempFitVarpTBins = [20, 0.5, 4.05]\<rparr>"

definition ConfChildGroup_default :: ConfChildGroup_t where
  "ConfChildGroup_default =
     \<lparr>ConfPDGCodeChildPos = 2212, ConfPDGCodeChildNeg = 211,
      ConfCutChildPos = 150, ConfCutChildNeg = 149,
      ConfChildPosPidnSigmaMax = 3, ConfChildNegPidnSigmaMax = 3,
      ConfChildPosIndex = 1, ConfChildNegIndex = 0,
      ConfChildPIDnSigmaMax = [4, 3], ConfChildnSpecies = 2,
      ConfChildTempFitVarBins = [300, - 0.15, 0.15],
      ConfChildTempFitVarpTBins = [20, 0.5, 4.05]\<rparr>"

subsection \<open>Histogram registries and delegates\<close>

text \<open>
  Modelled from the spec: a \<^verbatim>\<open>HistogramRegistry\<close> of the framework, by what the
  task can make it do (spec, 4.2 and 4.3): it has a name, it receives bookings
  (from the \<^verbatim>\<open>init\<close> of a delegate) and fill calls (from \<^verbatim>\<open>fillQA\<close>),
  and keeps both in the order they came. Two registries with the same lists hold the
  same histograms with the same contents.
\<close>

record ('b, 'f) HistogramRegistry =
  regName :: string
  booked :: "'b list"
  filled :: "'f list"

text \<open>The three particle delegates of lines 71 to 73; all three write to
  \<^verbatim>\<open>PhiRegistry\<close>.\<close>

datatype ParticleHisto = posChildHistos | negChildHistos | PhiHistos

text \<open>
  Modelled from the spec: \<^verbatim>\<open>FemtoUniverseParticleHisto::init\<close> is declared in
  FemtoUniverseParticleHisto.h. By the spec (4.2) it establishes the histogram schema
  from the binning of the pT axis and of the TempFitVar axis, a PDG code and two fixed
  flags, and fills nothing. A booking keeps the five arguments after the registry, in
  the order of the call.
\<close>

record histo_spec =
  tempFitVarpTBins :: ConfigurableAxis
  tempFitVarBins :: ConfigurableAxis
  flag_before_pdg :: bool
  pdgCode :: int
  flag_after_pdg :: bool

text \<open>
  Modelled from the spec: what a registry keeps of a call \<^verbatim>\<open>h.fillQA<a, b>(row)\<close> of
  a particle delegate: the delegate, the two template flags and the row.
\<close>

type_synonym particle_fill = "ParticleHisto \<times> bool \<times> bool \<times> part_iterator"

text \<open>
  The members of the struct. The logger is not a member in the C++ (it is the process's
  FairLogger); it is part of the state here because a warning is an effect of
  \<^verbatim>\<open>process\<close>. It keeps the messages logged at level \<^verbatim>\<open>warn\<close>.
\<close>

record femtoUniverseDebugPhi =
  cache :: SliceCache
  ConfPhigroup :: ConfPhigroup_t
  ConfChildGroup :: ConfChildGroup_t
  EventRegistry :: "(unit, FDCollision) HistogramRegistry"
  PhiRegistry :: "(ParticleHisto \<times> histo_spec, particle_fill) HistogramRegistry"
  logger :: "string list"

text \<open>
  The struct as constructed (lines 41 to 77): the framework supplies the cache and the
  values of the configurables, the registries are created empty with their names.
\<close>

definition construct ::
  "SliceCache \<Rightarrow> ConfPhigroup_t \<Rightarrow> ConfChildGroup_t \<Rightarrow> string list \<Rightarrow> femtoUniverseDebugPhi" where
  "construct c gp gc lg =
     \<lparr>cache = c, ConfPhigroup = gp, ConfChildGroup = gc,
      EventRegistry = \<lparr>regName = ''Event'', booked = [], filled = []\<rparr>,
      PhiRegistry = \<lparr>regName = ''FullPhiQA'', booked = [], filled = []\<rparr>,
      logger = lg\<rparr>"

text \<open>
  Modelled from the spec: \<^verbatim>\<open>FemtoUniverseEventHisto::init\<close>, called as
  \<^verbatim>\<open>eventHisto.init(&EventRegistry)\<close>. It books the event histograms and fills
  nothing (spec, 4.2).
\<close>

definition eventHisto_init :: "femtoUniverseDebugPhi \<Rightarrow> femtoUniverseDebugPhi" where
  "eventHisto_init s =
     s\<lparr>EventRegistry := (EventRegistry s)\<lparr>booked := booked (EventRegistry s) @ [()]\<rparr>\<rparr>"

text \<open>
  Modelled from the spec: \<^verbatim>\<open>FemtoUniverseParticleHisto::init\<close>, called as
  \<^verbatim>\<open>h.init(&PhiRegistry, pTBins, tempFitVarBins, f1, pdg, f2)\<close> for a particle
  delegate \<open>h\<close>. It books the histograms of \<open>h\<close> with these values and fills nothing
  (spec, 4.2).
\<close>

definition particleHisto_init ::
  "ParticleHisto \<Rightarrow> ConfigurableAxis \<Rightarrow> ConfigurableAxis \<Rightarrow> bool \<Rightarrow> int \<Rightarrow> bool \<Rightarrow>
   femtoUniverseDebugPhi \<Rightarrow> femtoUniverseDebugPhi" where
  "particleHisto_init h pTBins fitBins f1 pdg f2 s =
     s\<lparr>PhiRegistry := (PhiRegistry s)\<lparr>booked := booked (PhiRegistry s) @
        [(h, \<lparr>tempFitVarpTBins = pTBins, tempFitVarBins = fitBins,
              flag_before_pdg = f1, pdgCode = pdg, flag_after_pdg = f2\<rparr>)]\<rparr>\<rparr>"

text \<open>
  Modelled from the spec: \<^verbatim>\<open>FemtoUniverseEventHisto::fillQA\<close>, called as
  \<^verbatim>\<open>eventHisto.fillQA(col)\<close>. The registry receives one fill with the collision
  (spec, 4.3, step 2).
\<close>

definition eventHisto_fillQA :: "FDCollision \<Rightarrow> femtoUniverseDebugPhi \<Rightarrow> femtoUniverseDebugPhi" where
  "eventHisto_fillQA col s =
     s\<lparr>EventRegistry := (EventRegistry s)\<lparr>filled := filled (EventRegistry s) @ [col]\<rparr>\<rparr>"

text \<open>
  Modelled from the spec: \<^verbatim>\<open>FemtoUniverseParticleHisto::fillQA\<close>, called as
  \<^verbatim>\<open>h.fillQA<f1, f2>(row)\<close> for a particle delegate \<open>h\<close>. The registry receives
  one fill of \<open>h\<close> with the row (spec, 4.3, step 3).
\<close>

definition particleHisto_fillQA ::
  "ParticleHisto \<Rightarrow> bool \<Rightarrow> bool \<Rightarrow> part_iterator \<Rightarrow> femtoUniverseDebugPhi \<Rightarrow> femtoUniverseDebugPhi" where
  "particleHisto_fillQA h f1 f2 it s =
     s\<lparr>PhiRegistry := (PhiRegistry s)\<lparr>filled := filled (PhiRegistry s) @ [(h, f1, f2, it)]\<rparr>\<rparr>"

text \<open>
  Modelled from the spec: \<^verbatim>\<open>LOG(warn) << msg\<close> of the logging library. The message
  is logged once; nothing is raised (spec, 7).
\<close>

definition LOG_warn :: "string \<Rightarrow> femtoUniverseDebugPhi \<Rightarrow> femtoUniverseDebugPhi" where
  "LOG_warn msg s = s\<lparr>logger := logger s @ [msg]\<rparr>"

subsection \<open>init\<close>

text \<open>Lines 79 to 85: the four delegates are initialised in this order, the particle
  delegates with the binnings and the PDG code of their group and the flags
  \<^verbatim>\<open>false\<close> and \<^verbatim>\<open>true\<close>.\<close>

definition init :: "femtoUniverseDebugPhi \<Rightarrow> femtoUniverseDebugPhi" where
  "init s =
     (let s1 = eventHisto_init s;
          s2 = particleHisto_init posChildHistos
                 (ConfChildTempFitVarpTBins (ConfChildGroup s1))
                 (ConfChildTempFitVarBins (ConfChildGroup s1))
                 False (ConfPDGCodeChildPos (ConfChildGroup s1)) True s1;
          s3 = particleHisto_init negChildHistos
                 (ConfChildTempFitVarpTBins (ConfChildGroup s2))
                 (ConfChildTempFitVarBins (ConfChildGroup s2))
                 False (ConfPDGCodeChildNeg (ConfChildGroup s2)) True s2
      in particleHisto_init PhiHistos
           (ConfPhiTempFitVarpTBins (ConfPhigroup s3))
           (ConfPhiTempFitVarBins (ConfPhigroup s3))
           False (ConfPDGCodePhi (ConfPhigroup s3)) True s3)"

subsection \<open>process\<close>

text \<open>
  The body of the loop of lines 92 to 112 for one candidate \<open>part\<close>: the faults of
  its reads, in the order of the reads, and the state after the body. The body has no
  exit but the two \<^verbatim>\<open>continue\<close>: after a read out of range it goes on with what
  the read yielded. The two lookups of lines 96 and 97 come first, both before any
  comparison. The condition of line 98 is a short-circuit disjunction: entry 1 of the
  child-index list is read only when the first comparison found no difference. In the
  condition of lines 103 to 107 only the two comparisons of the type tags are code; the
  comparisons with the cut masks and the PID selection are comments.
\<close>

definition process_part ::
  "out_of_range \<Rightarrow> FemtoFullParticles \<Rightarrow> part_iterator \<Rightarrow> femtoUniverseDebugPhi \<Rightarrow>
   fault list \<times> femtoUniverseDebugPhi" where
  "process_part u parts part s =
     (if \<not> has_children (cols part) then ([], s)
      else
        let (f1, posChild) = iteratorAt_unchecked u parts (index part - 2);
            (f2, negChild) = iteratorAt_unchecked u parts (index part - 1);
            (f3, id0) = childrenIds_unchecked u part 0
        in if globalIndex (cols posChild) \<noteq> id0
           then (f1 @ f2 @ f3, LOG_warn ''Indices of Phi children do not match'' s)
           else
             let (f4, id1) = childrenIds_unchecked u part 1
             in if globalIndex (cols negChild) \<noteq> id1
                then (f1 @ f2 @ f3 @ f4, LOG_warn ''Indices of Phi children do not match'' s)
                else if partType (cols posChild) = kPhiChild
                        \<and> partType (cols negChild) = kPhiChild
                then (f1 @ f2 @ f3 @ f4,
                      particleHisto_fillQA negChildHistos False True negChild
                        (particleHisto_fillQA posChildHistos False True posChild
                          (particleHisto_fillQA PhiHistos False True part s)))
                else (f1 @ f2 @ f3 @ f4, s))"

text \<open>
  The loop over the candidates of the slice: every candidate is processed, in order,
  each from the state the one before left. The outcome is the list of the faults of the
  whole loop and the state after the last candidate.
\<close>

fun process_loop ::
  "out_of_range \<Rightarrow> FemtoFullParticles \<Rightarrow> part_iterator list \<Rightarrow> femtoUniverseDebugPhi \<Rightarrow>
   fault list \<times> femtoUniverseDebugPhi" where
  "process_loop u parts [] s = ([], s)"
| "process_loop u parts (part # rest) s =
     (let (f, s') = process_part u parts part s;
          (g, s'') = process_loop u parts rest s'
      in (f @ g, s''))"

text \<open>Lines 88 to 113: the slice of the candidates of this collision, the fill of the
  event histogram, then the loop.\<close>

definition process ::
  "out_of_range \<Rightarrow> femtoUniverseDebugPhi \<Rightarrow> FDCollision \<Rightarrow> FemtoFullParticles \<Rightarrow>
   fault list \<times> femtoUniverseDebugPhi" where
  "process u s col parts =
     (let groupPartsOne = sliceByCached (partsOne parts) (globalIndex_col col) (cache s);
          s1 = eventHisto_fillQA col s
      in process_loop u parts groupPartsOne s1)"

subsection \<open>Counting fills\<close>

text \<open>The number of fill calls of one particle delegate in a list of fill calls.\<close>

definition fills_on :: "ParticleHisto \<Rightarrow> particle_fill list \<Rightarrow> nat" where
  "fills_on h fs = length (filter (\<lambda>f. fst f = h) fs)"

subsection \<open>Concrete tables\<close>

text \<open>
  Small inputs on which the properties below are run. In \<open>ex_parts\<close> all rows belong to
  collision 0 and the global index of a row is its position: two children, a candidate
  that records them (position 2), a candidate without children (position 3) and a
  candidate whose recorded children are not the two rows before it (position 4).
\<close>

definition ex_row :: "int \<Rightarrow> ParticleType \<Rightarrow> bool \<Rightarrow> int list \<Rightarrow> FDParticle" where
  "ex_row g t h ids =
     \<lparr>globalIndex = g, fdCollisionId = 0, partType = t, cut_col = 0,
      has_children = h, childrenIds = ids\<rparr>"

definition ex_parts :: FemtoFullParticles where
  "ex_parts =
     [ex_row 0 kPhiChild False [], ex_row 1 kPhiChild False [],
      ex_row 2 kPhi True [0, 1], ex_row 3 kPhi False [], ex_row 4 kPhi True [0, 1]]"

definition ex_it :: "int \<Rightarrow> part_iterator" where
  "ex_it i = \<lparr>index = i, cols = ex_parts ! nat i\<rparr>"

text \<open>A table whose only row is a candidate at position 0, with the given child-presence
  flag and child-index list.\<close>

definition ex_lone :: "bool \<Rightarrow> int list \<Rightarrow> FemtoFullParticles" where
  "ex_lone h ids = [ex_row 0 kPhi h ids]"

text \<open>Two children and a candidate whose child-index list has one entry only.\<close>

definition ex_short :: FemtoFullParticles where
  "ex_short = [ex_row 0 kPhiChild False [], ex_row 1 kPhiChild False [], ex_row 2 kPhi True [7]]"

text \<open>Reads out of range, for the runs below: at a position without a row the columns of
  a row that is no candidate and no child, with the position as its global index; -1 for
  a missing entry of a child-index list.\<close>

definition ex_beyond :: out_of_range where
  "ex_beyond =
     \<lparr>row_beyond = (\<lambda>i. ex_row i kOtherType False []),
      childId_beyond = (\<lambda>part k. - 1)\<rparr>"

definition ex_col :: FDCollision where
  "ex_col = \<lparr>globalIndex_col = 0\<rparr>"

text \<open>The task with the default configuration, after \<open>init\<close>.\<close>

definition ex_task :: femtoUniverseDebugPhi where
  "ex_task = init (construct [] ConfPhigroup_default ConfChildGroup_default [])"

section \<open>Properties\<close>

lemmas ex_defs = ex_row_def ex_parts_def ex_it_def ex_lone_def ex_beyond_def ex_col_def
  ex_task_def

lemmas model_defs = iteratorAt_def childrenIds_at_def iteratorAt_unchecked_def
  childrenIds_unchecked_def partsOne_def sliceByCached_def
  construct_def eventHisto_init_def particleHisto_init_def eventHisto_fillQA_def
  particleHisto_fillQA_def LOG_warn_def init_def process_part_def process_def
  ConfPhigroup_default_def ConfChildGroup_default_def

subsection \<open>The loop\<close>

lemma process_loop_append:
  "process_loop u parts (xs @ ys) s =
     (let (f, s') = process_loop u parts xs s;
          (g, s'') = process_loop u parts ys s'
      in (f @ g, s''))"
  by (induction xs arbitrary: s) (simp_all add: split_beta)

text \<open>A call of \<open>process\<close>, cut at a candidate of the slice: the candidates before it,
  the body for the candidate, the candidates after it.\<close>

lemma process_at:
  assumes "sliceByCached (partsOne parts) (globalIndex_col col) (cache s) = pre @ part # post"
  shows "process u s col parts =
     (let (f, s1) = process_loop u parts pre (eventHisto_fillQA col s);
          (g, s2) = process_part u parts part s1;
          (h, s3) = process_loop u parts post s2
      in (f @ g @ h, s3))"
  using assms by (simp add: process_def process_loop_append split_beta)

subsection \<open>What one iteration and the whole loop do to the state\<close>

lemma fills_on_append: "fills_on h (fs @ gs) = fills_on h fs + fills_on h gs"
  by (simp add: fills_on_def)

lemma fills_on_Nil: "fills_on h [] = 0"
  by (simp add: fills_on_def)

lemma fills_on_three:
  "fills_on h [(PhiHistos, a, b, p), (posChildHistos, c, d, q), (negChildHistos, e, f, r)] = 1"
  by (cases h) (simp_all add: fills_on_def)

text \<open>
  The body has three outcomes besides its faults: a skip, the warning, or the three
  fills. Which one it takes, and with which faults, depends on the table, the candidate
  and the reads out of range only, never on the state of the task.
\<close>

lemma process_part_cases:
  "\<exists>f. (\<forall>t. process_part u parts part t = (f, t))
   \<or> (\<forall>t. process_part u parts part t =
          (f, LOG_warn ''Indices of Phi children do not match'' t))
   \<or> (\<exists>p q. \<forall>t. process_part u parts part t =
          (f, particleHisto_fillQA negChildHistos False True q
                (particleHisto_fillQA posChildHistos False True p
                  (particleHisto_fillQA PhiHistos False True part t))))"
proof (cases "has_children (cols part)")
  case False
  then have "\<forall>t. process_part u parts part t = ([], t)"
    by (simp add: process_part_def)
  then show ?thesis by blast
next
  case flag: True
  obtain f1 p where pos: "iteratorAt_unchecked u parts (index part - 2) = (f1, p)"
    by (cases "iteratorAt_unchecked u parts (index part - 2)")
  obtain f2 q where neg: "iteratorAt_unchecked u parts (index part - 1) = (f2, q)"
    by (cases "iteratorAt_unchecked u parts (index part - 1)")
  obtain f3 id0 where id0: "childrenIds_unchecked u part 0 = (f3, id0)"
    by (cases "childrenIds_unchecked u part 0")
  obtain f4 id1 where id1: "childrenIds_unchecked u part 1 = (f4, id1)"
    by (cases "childrenIds_unchecked u part 1")
  show ?thesis
  proof (cases "globalIndex (cols p) = id0")
    case False
    with flag pos neg id0
    have "\<forall>t. process_part u parts part t =
        (f1 @ f2 @ f3, LOG_warn ''Indices of Phi children do not match'' t)"
      by (simp add: process_part_def)
    then show ?thesis by blast
  next
    case eq0: True
    show ?thesis
    proof (cases "globalIndex (cols q) = id1")
      case False
      with flag pos neg id0 id1 eq0
      have "\<forall>t. process_part u parts part t =
          (f1 @ f2 @ f3 @ f4, LOG_warn ''Indices of Phi children do not match'' t)"
        by (simp add: process_part_def)
      then show ?thesis by blast
    next
      case eq1: True
      show ?thesis
      proof (cases "partType (cols p) = kPhiChild \<and> partType (cols q) = kPhiChild")
        case True
        with flag pos neg id0 id1 eq0 eq1
        have "\<forall>t. process_part u parts part t =
          (f1 @ f2 @ f3 @ f4,
           particleHisto_fillQA negChildHistos False True q
             (particleHisto_fillQA posChildHistos False True p
               (particleHisto_fillQA PhiHistos False True part t)))"
          by (simp add: process_part_def)
        then show ?thesis by blast
      next
        case False
        with flag pos neg id0 id1 eq0 eq1
        have "\<forall>t. process_part u parts part t = (f1 @ f2 @ f3 @ f4, t)"
          by (auto simp: process_part_def)
        then show ?thesis by blast
      qed
    qed
  qed
qed

text \<open>
  So the body appends to the fill calls of the Phi registry and to the logger, the same
  for every state: a list of fill calls with as many calls of each of the three
  delegates, and a number of copies of the warning.
\<close>

lemma process_part_uniform:
  "\<exists>f fs n k. (\<forall>h. fills_on h fs = k) \<and>
        (\<forall>t. process_part u parts part t =
           (f, t\<lparr>PhiRegistry := (PhiRegistry t)\<lparr>filled := filled (PhiRegistry t) @ fs\<rparr>,
                  logger := logger t @ replicate n ''Indices of Phi children do not match''\<rparr>))"
proof -
  let ?msg = "''Indices of Phi children do not match''"
  let ?eff = "\<lambda>fs n t. t\<lparr>PhiRegistry := (PhiRegistry t)\<lparr>filled := filled (PhiRegistry t) @ fs\<rparr>,
                  logger := logger t @ replicate n ?msg\<rparr>"
  from process_part_cases [of u parts part]
  obtain f where
    "(\<forall>t. process_part u parts part t = (f, t))
     \<or> (\<forall>t. process_part u parts part t = (f, LOG_warn ?msg t))
     \<or> (\<exists>p q. \<forall>t. process_part u parts part t =
          (f, particleHisto_fillQA negChildHistos False True q
                (particleHisto_fillQA posChildHistos False True p
                  (particleHisto_fillQA PhiHistos False True part t))))"
    by blast
  then consider (skip) "\<forall>t. process_part u parts part t = (f, t)"
    | (warn) "\<forall>t. process_part u parts part t = (f, LOG_warn ?msg t)"
    | (fill) p q where "\<forall>t. process_part u parts part t =
        (f, particleHisto_fillQA negChildHistos False True q
              (particleHisto_fillQA posChildHistos False True p
                (particleHisto_fillQA PhiHistos False True part t)))"
    by blast
  then show ?thesis
  proof cases
    case skip
    have "\<forall>t. process_part u parts part t = (f, ?eff [] 0 t)"
      using skip by simp
    moreover have "\<forall>h. fills_on h [] = 0" by (simp add: fills_on_Nil)
    ultimately show ?thesis by blast
  next
    case warn
    have "\<forall>t. process_part u parts part t = (f, ?eff [] 1 t)"
      using warn by (simp add: LOG_warn_def)
    moreover have "\<forall>h. fills_on h [] = 0" by (simp add: fills_on_Nil)
    ultimately show ?thesis by blast
  next
    case fill
    let ?fs = "[(PhiHistos, False, True, part), (posChildHistos, False, True, p),
      (negChildHistos, False, True, q)]"
    have "\<forall>t. process_part u parts part t = (f, ?eff ?fs 0 t)"
      using fill by (simp add: particleHisto_fillQA_def)
    moreover have "\<forall>h. fills_on h ?fs = 1" by (simp add: fills_on_three)
    ultimately show ?thesis by blast
  qed
qed

text \<open>The same for the loop, by induction on the candidates: the faults and the
  appended fill calls and warnings are those of the table and the slice.\<close>

lemma process_loop_uniform:
  "\<exists>r fs n k. (\<forall>h. fills_on h fs = k) \<and>
     (\<forall>t. process_loop u parts xs t =
        (r, t\<lparr>PhiRegistry := (PhiRegistry t)\<lparr>filled := filled (PhiRegistry t) @ fs\<rparr>,
              logger := logger t @ replicate n ''Indices of Phi children do not match''\<rparr>))"
proof (induction xs)
  case Nil
  have "\<forall>h. fills_on h [] = 0" by (simp add: fills_on_Nil)
  moreover have "\<forall>t. process_loop u parts [] t =
        ([], t\<lparr>PhiRegistry := (PhiRegistry t)\<lparr>filled := filled (PhiRegistry t) @ []\<rparr>,
              logger := logger t @ replicate 0 ''Indices of Phi children do not match''\<rparr>)"
    by simp
  ultimately show ?case by blast
next
  case (Cons part rest)
  let ?msg = "''Indices of Phi children do not match''"
  from process_part_uniform [of u parts part]
  obtain f fs1 n1 k1 where c1: "\<forall>h. fills_on h fs1 = k1"
    and b1: "\<forall>t. process_part u parts part t =
           (f, t\<lparr>PhiRegistry := (PhiRegistry t)\<lparr>filled := filled (PhiRegistry t) @ fs1\<rparr>,
                  logger := logger t @ replicate n1 ?msg\<rparr>)"
    by blast
  from Cons.IH obtain r fs2 n2 k2 where c2: "\<forall>h. fills_on h fs2 = k2"
    and b2: "\<forall>t. process_loop u parts rest t =
        (r, t\<lparr>PhiRegistry := (PhiRegistry t)\<lparr>filled := filled (PhiRegistry t) @ fs2\<rparr>,
              logger := logger t @ replicate n2 ?msg\<rparr>)"
    by blast
  have "\<forall>h. fills_on h (fs1 @ fs2) = k1 + k2"
    using c1 c2 by (simp add: fills_on_append)
  moreover have "\<forall>t. process_loop u parts (part # rest) t =
        (f @ r, t\<lparr>PhiRegistry := (PhiRegistry t)\<lparr>filled := filled (PhiRegistry t) @ (fs1 @ fs2)\<rparr>,
              logger := logger t @ replicate (n1 + n2) ?msg\<rparr>)"
    using b1 b2 by (simp add: replicate_add)
  ultimately show ?case by blast
qed

text \<open>And for \<open>process\<close>: the fill of the event histogram, then the loop.\<close>

lemma process_uniform:
  "\<exists>r fs n k. (\<forall>h. fills_on h fs = k) \<and>
     (\<forall>t. process u t col parts =
        (r, t\<lparr>EventRegistry := (EventRegistry t)\<lparr>filled := filled (EventRegistry t) @ [col]\<rparr>,
              PhiRegistry := (PhiRegistry t)\<lparr>filled := filled (PhiRegistry t) @ fs\<rparr>,
              logger := logger t @ replicate n ''Indices of Phi children do not match''\<rparr>))"
proof -
  from process_loop_uniform [of u parts "sliceByCached (partsOne parts) (globalIndex_col col) []"]
  obtain r fs n k where c: "\<forall>h. fills_on h fs = k"
    and b: "\<forall>t. process_loop u parts (sliceByCached (partsOne parts) (globalIndex_col col) []) t =
        (r, t\<lparr>PhiRegistry := (PhiRegistry t)\<lparr>filled := filled (PhiRegistry t) @ fs\<rparr>,
              logger := logger t @ replicate n ''Indices of Phi children do not match''\<rparr>)"
    by blast
  have "\<forall>t. process u t col parts =
        (r, t\<lparr>EventRegistry := (EventRegistry t)\<lparr>filled := filled (EventRegistry t) @ [col]\<rparr>,
              PhiRegistry := (PhiRegistry t)\<lparr>filled := filled (PhiRegistry t) @ fs\<rparr>,
              logger := logger t @ replicate n ''Indices of Phi children do not match''\<rparr>)"
    using b by (simp add: process_def sliceByCached_def eventHisto_fillQA_def)
  with c show ?thesis by blast
qed

subsection \<open>The rows of a table and of a slice\<close>

lemma rows_from_member:
  "p \<in> set (rows_from i rs) \<Longrightarrow>
     i \<le> index p \<and> index p < i + int (length rs) \<and> cols p = rs ! nat (index p - i)"
proof (induction rs arbitrary: i)
  case Nil
  then show ?case by simp
next
  case (Cons r rs)
  show ?case
  proof (cases "p = \<lparr>index = i, cols = r\<rparr>")
    case True
    then show ?thesis by simp
  next
    case False
    with Cons.prems have "p \<in> set (rows_from (i + 1) rs)" by simp
    from Cons.IH [OF this]
    have a: "i + 1 \<le> index p" and b: "index p < i + 1 + int (length rs)"
      and c: "cols p = rs ! nat (index p - (i + 1))" by auto
    from a have "nat (index p - i) = Suc (nat (index p - (i + 1)))" by linarith
    with a b c show ?thesis by simp
  qed
qed

lemma rows_from_iteratorAt:
  assumes "p \<in> set (rows_from 0 parts)"
  shows "iteratorAt parts (index p) = Some p"
  using rows_from_member [OF assms] by (simp add: iteratorAt_def)

lemma slice_member:
  assumes "p \<in> set (sliceByCached (partsOne parts) v c)"
  shows "iteratorAt parts (index p) = Some p \<and> partType (cols p) = kPhi
    \<and> fdCollisionId (cols p) = v"
  using assms rows_from_iteratorAt [of p parts]
  by (auto simp: sliceByCached_def partsOne_def)

lemma rows_from_cols: "map cols (rows_from i rs) = rs"
  by (induction rs arbitrary: i) auto

subsection \<open>One candidate\<close>

text \<open>
  C4. A candidate of the slice whose child-presence flag is unset is skipped: from every
  state the body returns that state unchanged (no fill of the Phi, positive-child or
  negative-child histogram, no warning) and makes no read out of range: it looks no row
  up, whatever the positions before the candidate hold. So the call is the loop over
  the candidates before it, then the loop over the candidates after it from the same
  state.
\<close>

theorem C4_no_children_skipped:
  assumes "sliceByCached (partsOne parts) (globalIndex_col col) (cache s) = pre @ part # post"
    and "\<not> has_children (cols part)"
  shows "process_part u parts part t = ([], t)
    \<and> process u s col parts =
        (let (f, s1) = process_loop u parts pre (eventHisto_fillQA col s);
             (h, s2) = process_loop u parts post s1
         in (f @ h, s2))"
proof -
  have body: "process_part u parts part v = ([], v)" for v
    using assms(2) by (simp add: process_part_def)
  with process_at [OF assms(1), of u] show ?thesis by (simp add: split_beta)
qed

text \<open>The candidate at position 0 of a one-row table, without children: the call makes
  no read out of range and its only effect is the fill of the event histogram.\<close>

theorem C4_no_children_skipped_witness:
  "process ex_beyond ex_task ex_col (ex_lone False []) = ([], eventHisto_fillQA ex_col ex_task)"
proof -
  have a: "sliceByCached (partsOne (ex_lone False [])) (globalIndex_col ex_col) (cache ex_task)
      = [] @ \<lparr>index = 0, cols = ex_row 0 kPhi False []\<rparr> # []"
    by (simp add: ex_defs model_defs)
  have b: "\<not> has_children (cols \<lparr>index = 0, cols = ex_row 0 kPhi False []\<rparr>)"
    by (simp add: ex_row_def)
  from C4_no_children_skipped [OF a b, of ex_beyond]
  show ?thesis by simp
qed

text \<open>
  C1. A candidate of the slice with its child-presence flag set, whose rows at positions
  index - 2 and index - 1 have the global indices recorded as entries 0 and 1 of its
  child-index list and both carry the tag PhiChild: from every state the body performs
  exactly three fills, in this order: the Phi histogram with the candidate, the
  positive-child histogram with the row at index - 2, the negative-child histogram with
  the row at index - 1; it changes nothing else and makes no read out of range. So the
  call is the loop over the candidates before it, these three fills, then the loop over
  the candidates after it, whatever the other candidates are.
\<close>

theorem C1_matching_candidate_fills:
  assumes "sliceByCached (partsOne parts) (globalIndex_col col) (cache s) = pre @ part # post"
    and "has_children (cols part)"
    and "iteratorAt parts (index part - 2) = Some posChild"
    and "iteratorAt parts (index part - 1) = Some negChild"
    and "childrenIds_at part 0 = Some (globalIndex (cols posChild))"
    and "childrenIds_at part 1 = Some (globalIndex (cols negChild))"
    and "partType (cols posChild) = kPhiChild"
    and "partType (cols negChild) = kPhiChild"
  shows "process_part u parts part t =
      ([], t\<lparr>PhiRegistry := (PhiRegistry t)\<lparr>filled := filled (PhiRegistry t) @
        [(PhiHistos, False, True, part),
         (posChildHistos, False, True, posChild),
         (negChildHistos, False, True, negChild)]\<rparr>\<rparr>)
    \<and> process u s col parts =
        (let (f, s1) = process_loop u parts pre (eventHisto_fillQA col s);
             (h, s2) = process_loop u parts post
               (s1\<lparr>PhiRegistry := (PhiRegistry s1)\<lparr>filled := filled (PhiRegistry s1) @
                 [(PhiHistos, False, True, part),
                  (posChildHistos, False, True, posChild),
                  (negChildHistos, False, True, negChild)]\<rparr>\<rparr>)
         in (f @ h, s2))"
proof -
  have body: "process_part u parts part v =
      ([], v\<lparr>PhiRegistry := (PhiRegistry v)\<lparr>filled := filled (PhiRegistry v) @
        [(PhiHistos, False, True, part),
         (posChildHistos, False, True, posChild),
         (negChildHistos, False, True, negChild)]\<rparr>\<rparr>)" for v
    using assms(2-8)
    by (simp add: process_part_def iteratorAt_unchecked_def childrenIds_unchecked_def
        particleHisto_fillQA_def)
  with process_at [OF assms(1), of u] show ?thesis by (simp add: split_beta)
qed

text \<open>The candidate at position 2 of \<open>ex_parts\<close>, first of its slice; the candidates after
  it are skipped (position 3) and warned about (position 4).\<close>

theorem C1_matching_candidate_fills_witness:
  "process ex_beyond ex_task ex_col ex_parts =
     ([], (eventHisto_fillQA ex_col ex_task)
        \<lparr>PhiRegistry := (PhiRegistry ex_task)\<lparr>filled :=
           [(PhiHistos, False, True, ex_it 2),
            (posChildHistos, False, True, ex_it 0),
            (negChildHistos, False, True, ex_it 1)]\<rparr>,
         logger := [''Indices of Phi children do not match'']\<rparr>)"
proof -
  have a: "sliceByCached (partsOne ex_parts) (globalIndex_col ex_col) (cache ex_task)
      = [] @ ex_it 2 # [ex_it 3, ex_it 4]"
    by (simp add: ex_defs model_defs)
  have b: "has_children (cols (ex_it 2))"
    by (simp add: ex_defs)
  have c: "iteratorAt ex_parts (index (ex_it 2) - 2) = Some (ex_it 0)"
    by (simp add: ex_defs iteratorAt_def)
  have d: "iteratorAt ex_parts (index (ex_it 2) - 1) = Some (ex_it 1)"
    by (simp add: ex_defs iteratorAt_def)
  have e: "childrenIds_at (ex_it 2) 0 = Some (globalIndex (cols (ex_it 0)))"
    by (simp add: ex_defs childrenIds_at_def)
  have f: "childrenIds_at (ex_it 2) 1 = Some (globalIndex (cols (ex_it 1)))"
    by (simp add: ex_defs childrenIds_at_def)
  have g: "partType (cols (ex_it 0)) = kPhiChild" "partType (cols (ex_it 1)) = kPhiChild"
    by (simp_all add: ex_defs)
  from C1_matching_candidate_fills [OF a b c d e f g, of ex_beyond]
  show ?thesis by (simp add: ex_defs model_defs)
qed

text \<open>
  C2. A candidate of the slice with its child-presence flag set, for which the global
  index of the row at position index - 2 differs from entry 0 of its child-index list,
  or that of the row at index - 1 differs from entry 1: from every state the body logs
  the warning once and does nothing else (no histogram is filled), and it ends normally,
  without a read out of range. When entry 0 differs, entry 1 is not read and need not
  exist. So the call is the loop over the candidates before it, the warning, then the
  loop over the candidates after it, whatever the other candidates are.
\<close>

theorem C2_mismatch_warns_and_skips:
  assumes "sliceByCached (partsOne parts) (globalIndex_col col) (cache s) = pre @ part # post"
    and "has_children (cols part)"
    and "iteratorAt parts (index part - 2) = Some posChild"
    and "iteratorAt parts (index part - 1) = Some negChild"
    and "childrenIds_at part 0 = Some id0"
    and "globalIndex (cols posChild) \<noteq> id0
         \<or> (childrenIds_at part 1 = Some id1 \<and> globalIndex (cols negChild) \<noteq> id1)"
  shows "process_part u parts part t =
      ([], t\<lparr>logger := logger t @ [''Indices of Phi children do not match'']\<rparr>)
    \<and> process u s col parts =
        (let (f, s1) = process_loop u parts pre (eventHisto_fillQA col s);
             (h, s2) = process_loop u parts post
               (s1\<lparr>logger := logger s1 @ [''Indices of Phi children do not match'']\<rparr>)
         in (f @ h, s2))"
proof -
  have body: "process_part u parts part v =
      ([], v\<lparr>logger := logger v @ [''Indices of Phi children do not match'']\<rparr>)" for v
  proof (cases "globalIndex (cols posChild) = id0")
    case False
    with assms(2-5) show ?thesis
      by (simp add: process_part_def iteratorAt_unchecked_def childrenIds_unchecked_def
          LOG_warn_def split_beta)
  next
    case True
    with assms(6) have "childrenIds_at part 1 = Some id1"
      and "globalIndex (cols negChild) \<noteq> id1"
      by simp_all
    with True assms(2-5) show ?thesis
      by (simp add: process_part_def iteratorAt_unchecked_def childrenIds_unchecked_def
          LOG_warn_def)
  qed
  with process_at [OF assms(1), of u] show ?thesis by (simp add: split_beta)
qed

text \<open>
  The candidate at position 4 of \<open>ex_parts\<close>, last of its slice: the rows before it have
  the global indices 2 and 3, its list records 0 and 1. And the candidate of
  \<open>ex_short\<close>, whose list has the one entry 7: the first comparison differs, entry 1
  is not read.
\<close>

theorem C2_mismatch_warns_and_skips_witness:
  "process ex_beyond ex_task ex_col ex_parts =
     ([], (eventHisto_fillQA ex_col ex_task)
        \<lparr>PhiRegistry := (PhiRegistry ex_task)\<lparr>filled :=
           [(PhiHistos, False, True, ex_it 2),
            (posChildHistos, False, True, ex_it 0),
            (negChildHistos, False, True, ex_it 1)]\<rparr>,
         logger := [''Indices of Phi children do not match'']\<rparr>)
   \<and> process ex_beyond ex_task ex_col ex_short =
     ([], (eventHisto_fillQA ex_col ex_task)
        \<lparr>logger := [''Indices of Phi children do not match'']\<rparr>)"
proof -
  have a: "sliceByCached (partsOne ex_parts) (globalIndex_col ex_col) (cache ex_task)
      = [ex_it 2, ex_it 3] @ ex_it 4 # []"
    by (simp add: ex_defs model_defs)
  have b: "has_children (cols (ex_it 4))"
    by (simp add: ex_defs)
  have c: "iteratorAt ex_parts (index (ex_it 4) - 2) = Some (ex_it 2)"
    by (simp add: ex_defs iteratorAt_def)
  have d: "iteratorAt ex_parts (index (ex_it 4) - 1) = Some (ex_it 3)"
    by (simp add: ex_defs iteratorAt_def)
  have e: "childrenIds_at (ex_it 4) 0 = Some 0"
    by (simp add: ex_defs childrenIds_at_def)
  have g: "globalIndex (cols (ex_it 2)) \<noteq> 0
      \<or> (childrenIds_at (ex_it 4) 1 = Some 1 \<and> globalIndex (cols (ex_it 3)) \<noteq> 1)"
    by (simp add: ex_defs)
  from C2_mismatch_warns_and_skips [OF a b c d e g, of ex_beyond]
  have first: "process ex_beyond ex_task ex_col ex_parts =
     ([], (eventHisto_fillQA ex_col ex_task)
        \<lparr>PhiRegistry := (PhiRegistry ex_task)\<lparr>filled :=
           [(PhiHistos, False, True, ex_it 2),
            (posChildHistos, False, True, ex_it 0),
            (negChildHistos, False, True, ex_it 1)]\<rparr>,
         logger := [''Indices of Phi children do not match'']\<rparr>)"
    by (simp add: ex_defs model_defs)
  let ?phi = "\<lparr>index = 2, cols = ex_row 2 kPhi True [7]\<rparr>"
  let ?c0 = "\<lparr>index = 0, cols = ex_row 0 kPhiChild False []\<rparr>"
  let ?c1 = "\<lparr>index = 1, cols = ex_row 1 kPhiChild False []\<rparr>"
  have a': "sliceByCached (partsOne ex_short) (globalIndex_col ex_col) (cache ex_task)
      = [] @ ?phi # []"
    by (simp add: ex_defs ex_short_def model_defs)
  have b': "has_children (cols ?phi)"
    by (simp add: ex_defs)
  have c': "iteratorAt ex_short (index ?phi - 2) = Some ?c0"
    by (simp add: ex_defs ex_short_def iteratorAt_def)
  have d': "iteratorAt ex_short (index ?phi - 1) = Some ?c1"
    by (simp add: ex_defs ex_short_def iteratorAt_def)
  have e': "childrenIds_at ?phi 0 = Some 7"
    by (simp add: ex_defs childrenIds_at_def)
  have g': "globalIndex (cols ?c0) \<noteq> 7
      \<or> (childrenIds_at ?phi 1 = Some 0 \<and> globalIndex (cols ?c1) \<noteq> 0)"
    by (simp add: ex_defs)
  from C2_mismatch_warns_and_skips [OF a' b' c' d' e' g', of ex_beyond]
  have "process ex_beyond ex_task ex_col ex_short =
     ([], (eventHisto_fillQA ex_col ex_task)
        \<lparr>logger := [''Indices of Phi children do not match'']\<rparr>)"
    by (simp add: ex_defs model_defs)
  with first show ?thesis by blast
qed

subsection \<open>The whole call\<close>

lemma rows_from_cols_member:
  assumes "p \<in> set (rows_from i rs)"
  shows "cols p \<in> set rs"
proof -
  from assms have "cols p \<in> set (map cols (rows_from i rs))" by simp
  then show ?thesis by (simp only: rows_from_cols)
qed

lemma slice_empty:
  assumes "\<forall>r \<in> set parts. partType r = kPhi \<longrightarrow> fdCollisionId r \<noteq> v"
  shows "sliceByCached (partsOne parts) v c = []"
proof -
  have "\<not> (partType (cols p) = kPhi \<and> fdCollisionId (cols p) = v)"
    if "p \<in> set (rows_from 0 parts)" for p
    using assms rows_from_cols_member [OF that] by blast
  then show ?thesis
    by (auto simp: sliceByCached_def partsOne_def filter_empty_conv)
qed

text \<open>
  C3. Every call of \<open>process\<close> fills the event histogram exactly once, with the
  collision: whatever the table holds and whatever the loop over the candidates does
  (also when it reads out of range), the event registry after the call is the one
  before the call with the collision appended to its fill calls. The fill comes before
  the loop: the call is the loop run from the state that already has it. When no row of
  the table is a Phi candidate of this collision, the call makes no read out of range
  and this fill is its only effect: no particle histogram is filled.
\<close>

theorem C3_event_histogram_filled_once:
  "EventRegistry (snd (process u s col parts)) =
      (EventRegistry s)\<lparr>filled := filled (EventRegistry s) @ [col]\<rparr>
   \<and> process u s col parts =
      process_loop u parts (sliceByCached (partsOne parts) (globalIndex_col col) (cache s))
        (s\<lparr>EventRegistry := (EventRegistry s)\<lparr>filled := filled (EventRegistry s) @ [col]\<rparr>\<rparr>)
   \<and> ((\<forall>r \<in> set parts. partType r = kPhi \<longrightarrow> fdCollisionId r \<noteq> globalIndex_col col) \<longrightarrow>
        process u s col parts =
          ([], s\<lparr>EventRegistry := (EventRegistry s)\<lparr>filled := filled (EventRegistry s) @ [col]\<rparr>\<rparr>))"
proof (intro conjI impI)
  from process_uniform [of u col parts] obtain r fs n where
    "process u s col parts =
        (r, s\<lparr>EventRegistry := (EventRegistry s)\<lparr>filled := filled (EventRegistry s) @ [col]\<rparr>,
              PhiRegistry := (PhiRegistry s)\<lparr>filled := filled (PhiRegistry s) @ fs\<rparr>,
              logger := logger s @ replicate n ''Indices of Phi children do not match''\<rparr>)"
    by blast
  then show "EventRegistry (snd (process u s col parts)) =
      (EventRegistry s)\<lparr>filled := filled (EventRegistry s) @ [col]\<rparr>"
    by simp
next
  show "process u s col parts =
      process_loop u parts (sliceByCached (partsOne parts) (globalIndex_col col) (cache s))
        (s\<lparr>EventRegistry := (EventRegistry s)\<lparr>filled := filled (EventRegistry s) @ [col]\<rparr>\<rparr>)"
    by (simp add: process_def eventHisto_fillQA_def)
next
  assume "\<forall>r \<in> set parts. partType r = kPhi \<longrightarrow> fdCollisionId r \<noteq> globalIndex_col col"
  from slice_empty [OF this]
  show "process u s col parts =
          ([], s\<lparr>EventRegistry := (EventRegistry s)\<lparr>filled := filled (EventRegistry s) @ [col]\<rparr>\<rparr>)"
    by (simp add: process_def eventHisto_fillQA_def)
qed

text \<open>Collision 7 has no row in \<open>ex_parts\<close>: one event fill, no particle fill.\<close>

theorem C3_event_histogram_filled_once_witness:
  "fst (process ex_beyond ex_task \<lparr>globalIndex_col = 7\<rparr> ex_parts) = []
   \<and> filled (EventRegistry (snd (process ex_beyond ex_task \<lparr>globalIndex_col = 7\<rparr> ex_parts)))
       = [\<lparr>globalIndex_col = 7\<rparr>]
   \<and> filled (PhiRegistry (snd (process ex_beyond ex_task \<lparr>globalIndex_col = 7\<rparr> ex_parts))) = []"
proof -
  have a: "\<forall>r \<in> set ex_parts. partType r = kPhi \<longrightarrow>
      fdCollisionId r \<noteq> globalIndex_col \<lparr>globalIndex_col = 7\<rparr>"
    by (simp add: ex_defs)
  from C3_event_histogram_filled_once [of ex_beyond ex_task "\<lparr>globalIndex_col = 7\<rparr>" ex_parts] a
  have "process ex_beyond ex_task \<lparr>globalIndex_col = 7\<rparr> ex_parts =
      ([], ex_task\<lparr>EventRegistry := (EventRegistry ex_task)\<lparr>filled :=
         filled (EventRegistry ex_task) @ [\<lparr>globalIndex_col = 7\<rparr>]\<rparr>\<rparr>)"
    by blast
  then show ?thesis
    by (simp add: ex_task_def init_def construct_def eventHisto_init_def
        particleHisto_init_def)
qed

text \<open>
  C9. In one call of \<open>process\<close> the three particle histograms receive the same number
  of fills: there is a number k such that the count of fill calls of the Phi delegate,
  of the positive-child delegate and of the negative-child delegate in the Phi registry
  each grow by k, whatever the table holds and whatever the reads out of range yield.
\<close>

theorem C9_particle_histograms_lockstep:
  "\<exists>k. fills_on PhiHistos (filled (PhiRegistry (snd (process u s col parts)))) =
          fills_on PhiHistos (filled (PhiRegistry s)) + k
      \<and> fills_on posChildHistos (filled (PhiRegistry (snd (process u s col parts)))) =
          fills_on posChildHistos (filled (PhiRegistry s)) + k
      \<and> fills_on negChildHistos (filled (PhiRegistry (snd (process u s col parts)))) =
          fills_on negChildHistos (filled (PhiRegistry s)) + k"
proof -
  from process_uniform [of u col parts] obtain r fs n k where
    c: "\<forall>h. fills_on h fs = k" and
    "process u s col parts =
        (r, s\<lparr>EventRegistry := (EventRegistry s)\<lparr>filled := filled (EventRegistry s) @ [col]\<rparr>,
              PhiRegistry := (PhiRegistry s)\<lparr>filled := filled (PhiRegistry s) @ fs\<rparr>,
              logger := logger s @ replicate n ''Indices of Phi children do not match''\<rparr>)"
    by blast
  then have "filled (PhiRegistry (snd (process u s col parts))) = filled (PhiRegistry s) @ fs"
    by simp
  with c show ?thesis by (simp add: fills_on_append)
qed

text \<open>From the task after \<open>init\<close>, on \<open>ex_parts\<close>: the three counts are equal.\<close>

theorem C9_particle_histograms_lockstep_witness:
  "fills_on PhiHistos (filled (PhiRegistry (snd (process ex_beyond ex_task ex_col ex_parts)))) =
     fills_on posChildHistos (filled (PhiRegistry (snd (process ex_beyond ex_task ex_col ex_parts))))
   \<and> fills_on posChildHistos (filled (PhiRegistry (snd (process ex_beyond ex_task ex_col ex_parts)))) =
     fills_on negChildHistos (filled (PhiRegistry (snd (process ex_beyond ex_task ex_col ex_parts))))"
proof -
  have "filled (PhiRegistry ex_task) = []"
    by (simp add: ex_task_def init_def construct_def eventHisto_init_def
        particleHisto_init_def)
  then have "fills_on h (filled (PhiRegistry ex_task)) = 0" for h
    by (simp add: fills_on_Nil)
  with C9_particle_histograms_lockstep [of ex_beyond ex_task ex_col ex_parts]
  show ?thesis by auto
qed

text \<open>
  C10. A call of \<open>process\<close> changes nothing but the fill calls of the two registries
  and the logger: the state after the call is the state before the call with the
  collision appended to the fill calls of the event registry, a list of fill calls
  appended to those of the Phi registry, and a number of copies of the warning appended
  to the logger. In particular the values of all configurables are the same after the
  call, and so are the names and the bookings of the registries. The collision and the
  table are parameters passed by reference to const; the call returns no new value for
  them.
\<close>

theorem C10_process_frame:
  "ConfPhigroup (snd (process u s col parts)) = ConfPhigroup s
   \<and> ConfChildGroup (snd (process u s col parts)) = ConfChildGroup s
   \<and> (\<exists>fs n. snd (process u s col parts) =
        s\<lparr>EventRegistry := (EventRegistry s)\<lparr>filled := filled (EventRegistry s) @ [col]\<rparr>,
          PhiRegistry := (PhiRegistry s)\<lparr>filled := filled (PhiRegistry s) @ fs\<rparr>,
          logger := logger s @ replicate n ''Indices of Phi children do not match''\<rparr>)"
proof -
  from process_uniform [of u col parts] obtain r fs n where
    eq: "process u s col parts =
        (r, s\<lparr>EventRegistry := (EventRegistry s)\<lparr>filled := filled (EventRegistry s) @ [col]\<rparr>,
              PhiRegistry := (PhiRegistry s)\<lparr>filled := filled (PhiRegistry s) @ fs\<rparr>,
              logger := logger s @ replicate n ''Indices of Phi children do not match''\<rparr>)"
    by blast
  then have "snd (process u s col parts) =
        s\<lparr>EventRegistry := (EventRegistry s)\<lparr>filled := filled (EventRegistry s) @ [col]\<rparr>,
          PhiRegistry := (PhiRegistry s)\<lparr>filled := filled (PhiRegistry s) @ fs\<rparr>,
          logger := logger s @ replicate n ''Indices of Phi children do not match''\<rparr>"
    by simp
  moreover from eq have "ConfPhigroup (snd (process u s col parts)) = ConfPhigroup s"
    and "ConfChildGroup (snd (process u s col parts)) = ConfChildGroup s"
    by simp_all
  ultimately show ?thesis by blast
qed

text \<open>
  C5. The selection-bit masks and the PID configurables are inert. Take any state of
  the task and replace, by any values at all, the three masks (\<open>ConfCutPhi\<close>,
  \<open>ConfCutChildPos\<close>, \<open>ConfCutChildNeg\<close>) and the PID configurables (the two sigma
  cutoffs, the two child indices, the list of sigma maxima and the species count): on
  the same collision and table the call has the same faults, the same fill calls in
  both registries and the same warnings.
\<close>

theorem C5_cut_and_pid_configurables_inert:
  "(let s2 = s\<lparr>ConfPhigroup := (ConfPhigroup s)\<lparr>ConfCutPhi := cutPhi\<rparr>,
               ConfChildGroup := (ConfChildGroup s)
                 \<lparr>ConfCutChildPos := cutPos, ConfCutChildNeg := cutNeg,
                  ConfChildPosPidnSigmaMax := sigmaPos, ConfChildNegPidnSigmaMax := sigmaNeg,
                  ConfChildPosIndex := indexPos, ConfChildNegIndex := indexNeg,
                  ConfChildPIDnSigmaMax := sigmas, ConfChildnSpecies := nSpecies\<rparr>\<rparr>
    in fst (process u s2 col parts) = fst (process u s col parts)
     \<and> EventRegistry (snd (process u s2 col parts)) = EventRegistry (snd (process u s col parts))
     \<and> PhiRegistry (snd (process u s2 col parts)) = PhiRegistry (snd (process u s col parts))
     \<and> logger (snd (process u s2 col parts)) = logger (snd (process u s col parts)))"
proof -
  from process_uniform [of u col parts] obtain r fs n where
    eq: "\<forall>t. process u t col parts =
        (r, t\<lparr>EventRegistry := (EventRegistry t)\<lparr>filled := filled (EventRegistry t) @ [col]\<rparr>,
              PhiRegistry := (PhiRegistry t)\<lparr>filled := filled (PhiRegistry t) @ fs\<rparr>,
              logger := logger t @ replicate n ''Indices of Phi children do not match''\<rparr>)"
    by blast
  show ?thesis
    unfolding Let_def by (simp add: eq)
qed


subsection \<open>init\<close>

text \<open>
  C8. For every value of the configurables, \<open>init\<close> of the freshly constructed task
  books exactly three particle histograms in the Phi registry, in this order: the
  positive-child histogram with the child pT and TempFitVar binnings and the PDG code of
  the positive child, the negative-child histogram with the same child binnings and the
  PDG code of the negative child, and the Phi histogram with the Phi pT and TempFitVar
  binnings and the Phi PDG code; each with the first flag false and the second true. The
  event histogram is booked once, and nothing is filled.
\<close>

theorem C8_init_books_configured_schema:
  "booked (PhiRegistry (init (construct c gp gc lg))) =
     [(posChildHistos,
         \<lparr>tempFitVarpTBins = ConfChildTempFitVarpTBins gc,
          tempFitVarBins = ConfChildTempFitVarBins gc,
          flag_before_pdg = False, pdgCode = ConfPDGCodeChildPos gc, flag_after_pdg = True\<rparr>),
      (negChildHistos,
         \<lparr>tempFitVarpTBins = ConfChildTempFitVarpTBins gc,
          tempFitVarBins = ConfChildTempFitVarBins gc,
          flag_before_pdg = False, pdgCode = ConfPDGCodeChildNeg gc, flag_after_pdg = True\<rparr>),
      (PhiHistos,
         \<lparr>tempFitVarpTBins = ConfPhiTempFitVarpTBins gp,
          tempFitVarBins = ConfPhiTempFitVarBins gp,
          flag_before_pdg = False, pdgCode = ConfPDGCodePhi gp, flag_after_pdg = True\<rparr>)]
   \<and> booked (EventRegistry (init (construct c gp gc lg))) = [()]
   \<and> filled (PhiRegistry (init (construct c gp gc lg))) = []
   \<and> filled (EventRegistry (init (construct c gp gc lg))) = []"
  by (simp add: init_def construct_def eventHisto_init_def particleHisto_init_def)

subsection \<open>The positions of the children\<close>

text \<open>The lookups out of range in one iteration and in the loop: exactly those of the
  candidates with the child-presence flag set that have no row at one of the two
  positions.\<close>

lemma process_part_lookup_fault:
  "(IteratorOutOfRange \<in> set (fst (process_part u parts part t))) =
     (has_children (cols part)
      \<and> (iteratorAt parts (index part - 2) = None \<or> iteratorAt parts (index part - 1) = None))"
proof (cases "has_children (cols part)")
  case False
  then show ?thesis by (simp add: process_part_def)
next
  case flag: True
  obtain f1 p where pos: "iteratorAt_unchecked u parts (index part - 2) = (f1, p)"
    by (cases "iteratorAt_unchecked u parts (index part - 2)")
  obtain f2 q where neg: "iteratorAt_unchecked u parts (index part - 1) = (f2, q)"
    by (cases "iteratorAt_unchecked u parts (index part - 1)")
  obtain f3 id0 where id0: "childrenIds_unchecked u part 0 = (f3, id0)"
    by (cases "childrenIds_unchecked u part 0")
  obtain f4 id1 where id1: "childrenIds_unchecked u part 1 = (f4, id1)"
    by (cases "childrenIds_unchecked u part 1")
  have f1: "(IteratorOutOfRange \<in> set f1) = (iteratorAt parts (index part - 2) = None)"
    using pos by (auto simp: iteratorAt_unchecked_def split: option.splits)
  have f2: "(IteratorOutOfRange \<in> set f2) = (iteratorAt parts (index part - 1) = None)"
    using neg by (auto simp: iteratorAt_unchecked_def split: option.splits)
  have f3: "IteratorOutOfRange \<notin> set f3"
    using id0 by (auto simp: childrenIds_unchecked_def split: option.splits)
  have f4: "IteratorOutOfRange \<notin> set f4"
    using id1 by (auto simp: childrenIds_unchecked_def split: option.splits)
  have "fst (process_part u parts part t) = f1 @ f2 @ f3
      \<or> fst (process_part u parts part t) = f1 @ f2 @ f3 @ f4"
    using flag pos neg id0 id1 by (simp add: process_part_def)
  with f1 f2 f3 f4 flag show ?thesis by auto
qed

lemma process_loop_lookup_fault:
  "(IteratorOutOfRange \<in> set (fst (process_loop u parts xs s))) =
     (\<exists>part \<in> set xs. has_children (cols part)
        \<and> (iteratorAt parts (index part - 2) = None \<or> iteratorAt parts (index part - 1) = None))"
  by (induction xs arbitrary: s) (simp_all add: split_beta process_part_lookup_fault)

lemma slice_lookups:
  assumes "part \<in> set (sliceByCached (partsOne parts) v c)"
  shows "(iteratorAt parts (index part - 2) \<noteq> None \<and> iteratorAt parts (index part - 1) \<noteq> None)
    = (2 \<le> index part)"
proof -
  from slice_member [OF assms] have "iteratorAt parts (index part) = Some part" by simp
  then have "0 \<le> index part \<and> index part < int (length parts)"
    by (simp add: iteratorAt_def split: if_splits)
  then show ?thesis by (auto simp: iteratorAt_def)
qed

text \<open>
  C6. For every candidate of the slice, the rows at positions index - 2 and index - 1
  both exist exactly when the candidate's position is at least 2. The code makes the
  two lookups for every candidate with the child-presence flag set without checking
  this: for such a candidate the body makes a lookup out of range exactly when its
  position is below 2. So when every candidate of the slice with the flag set has
  position at least 2, no call of \<open>process\<close> makes a lookup out of range.
\<close>

theorem C6_child_lookup_in_bounds:
  "(\<forall>part \<in> set (sliceByCached (partsOne parts) (globalIndex_col col) (cache s)).
       ((iteratorAt parts (index part - 2) \<noteq> None \<and> iteratorAt parts (index part - 1) \<noteq> None)
          = (2 \<le> index part))
     \<and> (has_children (cols part) \<longrightarrow>
          (IteratorOutOfRange \<in> set (fst (process_part u parts part t))) = (index part < 2)))
   \<and> ((\<forall>part \<in> set (sliceByCached (partsOne parts) (globalIndex_col col) (cache s)).
          has_children (cols part) \<longrightarrow> 2 \<le> index part)
      \<longrightarrow> IteratorOutOfRange \<notin> set (fst (process u s col parts)))"
proof (intro conjI ballI impI)
  fix part
  assume "part \<in> set (sliceByCached (partsOne parts) (globalIndex_col col) (cache s))"
  then show "(iteratorAt parts (index part - 2) \<noteq> None \<and> iteratorAt parts (index part - 1) \<noteq> None)
          = (2 \<le> index part)"
    by (rule slice_lookups)
next
  fix part
  assume mem: "part \<in> set (sliceByCached (partsOne parts) (globalIndex_col col) (cache s))"
    and flag: "has_children (cols part)"
  from slice_lookups [OF mem] flag
  show "(IteratorOutOfRange \<in> set (fst (process_part u parts part t))) = (index part < 2)"
    unfolding process_part_lookup_fault by auto
next
  assume a: "\<forall>part \<in> set (sliceByCached (partsOne parts) (globalIndex_col col) (cache s)).
          has_children (cols part) \<longrightarrow> 2 \<le> index part"
  have "\<not> (\<exists>part \<in> set (sliceByCached (partsOne parts) (globalIndex_col col) (cache s)).
      has_children (cols part)
      \<and> (iteratorAt parts (index part - 2) = None \<or> iteratorAt parts (index part - 1) = None))"
    using a slice_lookups by blast
  then show "IteratorOutOfRange \<notin> set (fst (process u s col parts))"
    by (simp add: process_def process_loop_lookup_fault)
qed

text \<open>
  In \<open>ex_parts\<close> the candidates with children are at positions 2 and 4: the call makes
  no lookup out of range. The lone candidate with children at position 0 has no row at
  position -2 nor at -1: both lookups are out of range, the body goes on with what they
  yield, here a global index that is not the recorded one, and warns.
\<close>

theorem C6_child_lookup_in_bounds_witness:
  "IteratorOutOfRange \<notin> set (fst (process ex_beyond ex_task ex_col ex_parts))
   \<and> iteratorAt (ex_lone True [5, 6]) (0 - 2) = None
   \<and> process ex_beyond ex_task ex_col (ex_lone True [5, 6]) =
       ([IteratorOutOfRange, IteratorOutOfRange],
        (eventHisto_fillQA ex_col ex_task)
          \<lparr>logger := [''Indices of Phi children do not match'']\<rparr>)"
proof -
  have sl: "sliceByCached (partsOne ex_parts) (globalIndex_col ex_col) (cache ex_task)
      = [ex_it 2, ex_it 3, ex_it 4]"
    by (simp add: ex_defs model_defs)
  have "\<forall>part \<in> set (sliceByCached (partsOne ex_parts) (globalIndex_col ex_col) (cache ex_task)).
      has_children (cols part) \<longrightarrow> 2 \<le> index part"
    unfolding sl by (simp add: ex_defs)
  with C6_child_lookup_in_bounds [of ex_parts ex_col ex_task ex_beyond ex_task]
  have "IteratorOutOfRange \<notin> set (fst (process ex_beyond ex_task ex_col ex_parts))"
    by blast
  moreover have "iteratorAt (ex_lone True [5, 6]) (0 - 2) = None"
    by (simp add: iteratorAt_def)
  moreover have "process ex_beyond ex_task ex_col (ex_lone True [5, 6]) =
       ([IteratorOutOfRange, IteratorOutOfRange],
        (eventHisto_fillQA ex_col ex_task)
          \<lparr>logger := [''Indices of Phi children do not match'']\<rparr>)"
    by (simp add: ex_defs model_defs)
  ultimately show ?thesis by blast
qed

end
